theory Spec2Isabelle
  imports Complex_Main
begin

section \<open>Waveform generation (aumix/signal/simple\_signal.py)\<close>

text \<open>
  Python numbers that the source treats as floating point (frequency, duration, the samples)
  are embedded as \<^typ>\<open>real\<close>. The rounding of IEEE doubles is modelled where it decides
  how many samples there are, in the product \<open>duration * samp_rate\<close>; the values of the
  samples are computed over the reals. The sampling rate is an integer, as the docstring of
  \<open>write\<close> declares it.
\<close>

text \<open>
  \<open>numpy.arange(stop)\<close> with one argument counts \<open>0, 1, 2, ...\<close> over the half-open
  interval \<open>[0, stop)\<close>; numpy documents the length of the result as
  \<open>ceil((stop - start) / step)\<close>, and an empty result when \<open>stop \<le> 0\<close>.
\<close>

definition np_arange :: "real \<Rightarrow> real list" where
  "np_arange stop = map real [0 ..< nat \<lceil>stop\<rceil>]"

text \<open>
  The result of an arithmetic operation on doubles is the exact result rounded to the
  nearest double, a tie going to the even neighbour. A double has 53 significant bits, so
  in the binade \<open>[2^e, 2^(e+1))\<close> the doubles are the multiples of \<open>2^(e-52)\<close>; below
  \<open>2^(-1022)\<close> the spacing stays \<open>2^(-1074)\<close>. Overflow to infinity is not modelled:
  \<open>numpy.arange\<close> returns no array for a stop that large.
\<close>

definition round_half_even :: "real \<Rightarrow> int" where
  "round_half_even x =
     (let n = \<lfloor>x\<rfloor>; r = x - of_int n
      in if r < 1 / 2 then n else if 1 / 2 < r then n + 1 else if even n then n else n + 1)"

definition float64 :: "real \<Rightarrow> real" where
  "float64 x =
     (if x = 0 then 0
      else let e = max \<lfloor>log 2 \<bar>x\<bar>\<rfloor> (- 1022); ulp = 2 powr (of_int e - 52)
           in of_int (round_half_even (x / ulp)) * ulp)"

text \<open>
  \<open>numpy.mod(t, 2 * pi)\<close> over the reals: the remainder has the sign of the divisor, so it
  lies in \<open>[0, 2 * pi)\<close>. In doubles the remainder of a tiny negative \<open>t\<close> rounds to
  \<open>2 * pi\<close> itself, and the remainder of an infinity is not-a-number; a list of reals
  cannot hold these results, so no bound on the samples of the square and sawtooth
  generators is derived from this definition.
\<close>

definition tmod :: "real \<Rightarrow> real" where
  "tmod t = t - 2 * pi * of_int \<lfloor>t / (2 * pi)\<rfloor>"

text \<open>
  \<open>scipy.signal.square(t)\<close> with the default duty cycle 0.5: period \<open>2 * pi\<close>, value 1 on
  \<open>[0, pi)\<close> and -1 on \<open>[pi, 2 * pi)\<close>.
\<close>

definition square :: "real \<Rightarrow> real" where
  "square t = (if tmod t < (1 / 2) * 2 * pi then 1 else - 1)"

text \<open>
  \<open>scipy.signal.sawtooth(t)\<close> with the default width 1: period \<open>2 * pi\<close>, rising from -1
  to 1 over the whole period, computed by scipy as \<open>tmod / (pi * width) - 1\<close> where
  \<open>tmod < width * 2 * pi\<close>. Over the reals that is everywhere; scipy's other branch, which
  divides by \<open>pi * (1 - width)\<close>, is reached in doubles only and is left out.
\<close>

definition sawtooth :: "real \<Rightarrow> real" where
  "sawtooth t = tmod t / (pi * 1) - 1"

text \<open>The four subclasses of the abstract class \<open>Signal\<close>.\<close>

datatype waveform = SineSignal | CosineSignal | SquareSignal | SawtoothSignal

record Signal =
  samp_rate :: int
  duration :: real
  freq :: real
  samp_nums :: "real list"
  data :: "real list"

text \<open>
  \<open>gen_data\<close> is the one overridden method; each subclass assigns \<open>self.data\<close> from
  \<open>self.freq\<close> and \<open>self.samp_nums\<close>.
\<close>

fun gen_data :: "waveform \<Rightarrow> Signal \<Rightarrow> Signal" where
  "gen_data SineSignal self = self\<lparr>data := map (\<lambda>t. sin (pi * freq self * t)) (samp_nums self)\<rparr>"
| "gen_data CosineSignal self = self\<lparr>data := map (\<lambda>t. cos (pi * freq self * t)) (samp_nums self)\<rparr>"
| "gen_data SquareSignal self = self\<lparr>data := map (\<lambda>t. square (pi * freq self * t)) (samp_nums self)\<rparr>"
| "gen_data SawtoothSignal self =
     self\<lparr>data := map (\<lambda>t. (sawtooth (pi * freq self * t) + 1) / 2) (samp_nums self)\<rparr>"

text \<open>
  \<open>Signal.__init__(self, freq, samp_rate, duration)\<close>. The stop handed to \<open>numpy.arange\<close>
  is the product \<open>duration * samp_rate\<close> as the double multiplication returns it. The
  attribute \<open>data\<close> does not exist before \<open>gen_data\<close> runs; the record holds the empty list
  until then.
\<close>

definition Signal_init :: "waveform \<Rightarrow> real \<Rightarrow> int \<Rightarrow> real \<Rightarrow> Signal" where
  "Signal_init w f sr d =
     gen_data w
       \<lparr>samp_rate = sr, duration = d, freq = f,
        samp_nums = map (\<lambda>k. k / real_of_int sr) (np_arange (float64 (d * real_of_int sr))),
        data = []\<rparr>"

section \<open>Writing a .wav file (aumix/io/wav.py)\<close>

datatype error = ValueError string

datatype dtype = UInt8 | Int16 | Int32 | Float32

text \<open>\<open>numpy.iinfo(dtype).max\<close>; \<open>numpy.iinfo\<close> raises \<open>ValueError\<close> on a floating-point type.\<close>

fun iinfo_max :: "dtype \<Rightarrow> error + int" where
  "iinfo_max UInt8 = Inr 255"
| "iinfo_max Int16 = Inr 32767"
| "iinfo_max Int32 = Inr 2147483647"
| "iinfo_max Float32 = Inl (ValueError ''Invalid integer data type f.'')"

fun iinfo_min :: "dtype \<Rightarrow> error + int" where
  "iinfo_min UInt8 = Inr 0"
| "iinfo_min Int16 = Inr (- 32768)"
| "iinfo_min Int32 = Inr (- 2147483648)"
| "iinfo_min Float32 = Inl (ValueError ''Invalid integer data type f.'')"

text \<open>
  \<open>numpy.max\<close> and \<open>numpy.min\<close> of a one-dimensional array; both raise \<open>ValueError\<close> on an
  array of size zero.
\<close>

fun np_max :: "real list \<Rightarrow> error + real" where
  "np_max [] = Inl (ValueError ''zero-size array to reduction operation maximum which has no identity'')"
| "np_max (x # xs) = Inr (fold max xs x)"

fun np_min :: "real list \<Rightarrow> error + real" where
  "np_min [] = Inl (ValueError ''zero-size array to reduction operation minimum which has no identity'')"
| "np_min (x # xs) = Inr (fold min xs x)"

text \<open>
  A floating-point division by zero does not raise in numpy: the quotient is an infinity
  or not-a-number. The quotient type keeps these three values apart from the finite ones.
  (Signed zeros are not modelled: a zero divisor counts as positive.)
\<close>

datatype npfloat = Finite real | PosInf | NegInf | NaN

definition np_div :: "real \<Rightarrow> real \<Rightarrow> npfloat" where
  "np_div x d =
     (if d \<noteq> 0 then Finite (x / d)
      else if x = 0 then NaN
      else if 0 < x then PosInf
      else NegInf)"

text \<open>
  The product of a scalar and a quotient, as numpy computes it: an infinity keeps or flips
  its sign with the sign of the scalar, and zero times an infinity is not-a-number.
\<close>

definition np_mul :: "real \<Rightarrow> npfloat \<Rightarrow> npfloat" where
  "np_mul c v =
     (case v of
        Finite r \<Rightarrow> Finite (c * r)
      | PosInf \<Rightarrow> (if 0 < c then PosInf else if c < 0 then NegInf else NaN)
      | NegInf \<Rightarrow> (if 0 < c then NegInf else if c < 0 then PosInf else NaN)
      | NaN \<Rightarrow> NaN)"

text \<open>Line 63: \<open>amplitude = amp_perc * (np.iinfo(dtype).max if dtype != np.float32 else 1)\<close>.\<close>

definition amplitude :: "real \<Rightarrow> dtype \<Rightarrow> error + real" where
  "amplitude amp_perc dt =
     (if dt \<noteq> Float32
      then (case iinfo_max dt of Inl e \<Rightarrow> Inl e | Inr m \<Rightarrow> Inr (amp_perc * real_of_int m))
      else Inr (amp_perc * 1))"

text \<open>Lines 62 to 70: the array \<open>out_data\<close> before it is cast to the output type.\<close>

definition out_data :: "dtype \<Rightarrow> real \<Rightarrow> real list \<Rightarrow> error + npfloat list" where
  "out_data dt amp_perc arr =
     (case amplitude amp_perc dt of
        Inl e \<Rightarrow> Inl e
      | Inr a \<Rightarrow>
          if dt = UInt8
          then (case np_min arr of
                  Inl e \<Rightarrow> Inl e
                | Inr mn \<Rightarrow>
                    let unsigned_data = map (\<lambda>x. x - mn) arr
                    in (case np_max unsigned_data of
                          Inl e \<Rightarrow> Inl e
                        | Inr mx \<Rightarrow> Inr (map (\<lambda>x. np_div (x * a) mx) unsigned_data)))
          else (case np_max arr of
                  Inl e \<Rightarrow> Inl e
                | Inr mx \<Rightarrow> Inr (map (\<lambda>x. np_div (x * a) mx) arr)))"

text \<open>
  \<open>ndarray.astype(dtype)\<close> on one sample. A cast to an integer type truncates towards zero;
  numpy leaves the result unspecified when the truncated value does not fit the type or the
  sample is not finite. The cast to \<open>float32\<close> keeps the value (its rounding to single
  precision is not modelled).
\<close>

datatype stored = IntSample int | FloatSample npfloat | Unspecified

definition trunc :: "real \<Rightarrow> int" where
  "trunc r = (if 0 \<le> r then \<lfloor>r\<rfloor> else \<lceil>r\<rceil>)"

definition astype :: "dtype \<Rightarrow> npfloat \<Rightarrow> stored" where
  "astype dt v =
     (case (iinfo_min dt, iinfo_max dt) of
        (Inr lo, Inr hi) \<Rightarrow>
          (case v of
             Finite r \<Rightarrow> if lo \<le> trunc r \<and> trunc r \<le> hi then IntSample (trunc r) else Unspecified
           | _ \<Rightarrow> Unspecified)
      | _ \<Rightarrow> FloatSample v)"

text \<open>\<open>str.split(sep)\<close> for a one-character separator, and \<open>sep.join(parts)\<close>.\<close>

fun split_on :: "char \<Rightarrow> string \<Rightarrow> string list" where
  "split_on c [] = [[]]"
| "split_on c (x # xs) =
     (if x = c then [] # split_on c xs
      else (case split_on c xs of [] \<Rightarrow> [[x]] | p # ps \<Rightarrow> (x # p) # ps))"

fun join :: "string \<Rightarrow> string list \<Rightarrow> string" where
  "join sep [] = []"
| "join sep [p] = p"
| "join sep (p # q # ps) = p @ sep @ join sep (q # ps)"

text \<open>
  \<open>datetime.now().strftime("%y%m%d-%H%M%S")\<close>: every field is printed with two decimal
  digits, the year without its century.
\<close>

record datetime =
  year :: nat
  month :: nat
  day :: nat
  hour :: nat
  minute :: nat
  second :: nat

definition two_digits :: "nat \<Rightarrow> string" where
  "two_digits n = [''0123456789'' ! (n div 10 mod 10), ''0123456789'' ! (n mod 10)]"

definition strftime :: "datetime \<Rightarrow> string" where
  "strftime t =
     two_digits (year t mod 100) @ two_digits (month t) @ two_digits (day t) @ ''-'' @
     two_digits (hour t) @ two_digits (minute t) @ two_digits (second t)"

text \<open>
  The surroundings \<open>write\<close> reads: which paths exist (\<open>os.path.exists\<close>) and the local time
  (\<open>datetime.now()\<close>). Its effects on the file system are the calls it makes, in order:
  \<open>os.makedirs(folder)\<close> and \<open>scipy.io.wavfile.write(path, rate, buffer)\<close>. Failures of the
  operating system inside these two calls are outside the model.
\<close>

record env =
  path_exists :: "string \<Rightarrow> bool"
  now :: datetime

datatype io = MakeDirs string | WavWrite string int "stored list"

text \<open>The argument \<open>signal\<close>: a raw array, or an instance of \<open>Signal\<close>.\<close>

datatype signal_arg = Array "real list" | SignalObj Signal

text \<open>
  \<open>write(filename, signal, samp_rate, amp_perc, dtype, auto_timestamp)\<close>, under the name
  \<open>wav_write\<close> since \<open>write\<close> is a reserved word of Isabelle. The result is the list of
  file-system calls made and either the raised error or \<open>None\<close>.
\<close>

definition wav_write ::
  "env \<Rightarrow> string \<Rightarrow> signal_arg \<Rightarrow> int option \<Rightarrow> real \<Rightarrow> dtype \<Rightarrow> bool \<Rightarrow> io list \<times> (error + unit)"
where
  "wav_write e filename signal rate_arg amp_perc dt auto_timestamp =
     (let (arr, rate_opt) =
            (case signal of
               SignalObj s \<Rightarrow> (data s, Some (samp_rate s))
             | Array a \<Rightarrow> (a, rate_arg))
      in case rate_opt of
           None \<Rightarrow> ([], Inl (ValueError ''Sampling rate is undefined.''))
         | Some rate \<Rightarrow>
             (case out_data dt amp_perc arr of
                Inl err \<Rightarrow> ([], Inl err)
              | Inr out \<Rightarrow>
                  let raw_filename = last (split_on CHR ''/'' filename);
                      folder = join ''/'' (butlast (split_on CHR ''/'' filename));
                      made = (if folder \<noteq> '''' \<and> \<not> path_exists e folder
                              then [MakeDirs folder] else []);
                      timestamp = (if auto_timestamp then strftime (now e) @ ''-'' else '''')
                  in (made @ [WavWrite (folder @ ''/'' @ timestamp @ raw_filename @ ''.wav'')
                                rate (map (astype dt) out)],
                      Inr ())))"

section \<open>Properties of the waveform generators\<close>



lemma float64_binade:
  fixes k :: int
  assumes "2 powr (of_int k) \<le> \<bar>x\<bar>" and "\<bar>x\<bar> < 2 powr (of_int k + 1)" and "- 1022 \<le> k"
  shows "float64 x =
     of_int (round_half_even (x / 2 powr (of_int k - 52))) * 2 powr (of_int k - 52)"
proof -
  have "0 < (2::real) powr (of_int k)" by simp
  then have pos: "0 < \<bar>x\<bar>" using assms(1) by linarith
  have e: "\<lfloor>log 2 \<bar>x\<bar>\<rfloor> = k"
    using floor_log_eq_powr_iff [of "\<bar>x\<bar>" 2 k] pos assms(1,2) by simp
  have x0: "x \<noteq> 0" using pos by auto
  have m: "max k (- 1022) = k" using assms(3) by simp
  show ?thesis using x0 by (simp add: float64_def e m Let_def)
qed

lemma float64_normal:
  fixes k :: nat
  assumes "2 ^ k \<le> \<bar>x\<bar>" and "\<bar>x\<bar> < 2 ^ (k + 1)"
  shows "float64 x = of_int (round_half_even (x * 2 ^ 52 / 2 ^ k)) * 2 ^ k / 2 ^ 52"
proof -
  have b: "(2::real) powr (of_int (int k)) \<le> \<bar>x\<bar>" "\<bar>x\<bar> < 2 powr (of_int (int k) + 1)"
    using assms by (simp_all add: powr_realpow powr_add)
  have u: "(2::real) powr (of_int (int k) - 52) = 2 ^ k / 2 ^ 52"
    by (simp add: powr_diff powr_realpow)
  have "float64 x =
      of_int (round_half_even (x / (2 powr (of_int (int k) - 52)))) * (2 powr (of_int (int k) - 52))"
    using float64_binade [OF b] by simp
  also have "\<dots> = of_int (round_half_even (x / (2 ^ k / 2 ^ 52))) * (2 ^ k / 2 ^ 52)"
    by (simp only: u)
  finally show ?thesis by simp
qed


lemma float64_examples:
  "float64 1 = 1" "float64 2 = 2" "float64 4 = 4" "float64 (5 / 2) = 5 / 2"
  using float64_normal [of 0 1] float64_normal [of 1 2] float64_normal [of 2 4]
    float64_normal [of 1 "5 / 2"]
  by (simp_all add: round_half_even_def)

lemma length_np_arange: "length (np_arange stop) = nat \<lceil>stop\<rceil>"
  by (simp add: np_arange_def)

lemma nth_np_arange: "i < nat \<lceil>stop\<rceil> \<Longrightarrow> np_arange stop ! i = real i"
  by (simp add: np_arange_def)

lemma samp_nums_gen_data: "samp_nums (gen_data w s) = samp_nums s"
  by (cases w) simp_all

lemma length_data_gen_data: "length (data (gen_data w s)) = length (samp_nums s)"
  by (cases w) simp_all

lemma samp_nums_Signal_init:
  "samp_nums (Signal_init w f sr d) =
     map (\<lambda>k. k / real_of_int sr) (np_arange (float64 (d * real_of_int sr)))"
  by (simp add: Signal_init_def samp_nums_gen_data)

lemma length_samp_nums_Signal_init:
  "length (samp_nums (Signal_init w f sr d)) = nat \<lceil>float64 (d * real_of_int sr)\<rceil>"
  by (simp add: samp_nums_Signal_init length_np_arange)

lemma length_data_Signal_init:
  "length (data (Signal_init w f sr d)) = nat \<lceil>float64 (d * real_of_int sr)\<rceil>"
  by (simp add: Signal_init_def length_data_gen_data length_np_arange)

lemma nth_samp_nums_Signal_init:
  assumes "i < nat \<lceil>float64 (d * real_of_int sr)\<rceil>"
  shows "samp_nums (Signal_init w f sr d) ! i = real i / real_of_int sr"
  using assms by (simp add: samp_nums_Signal_init length_np_arange nth_np_arange)

lemma data_Sine_init:
  "data (Signal_init SineSignal f sr d) =
     map (\<lambda>t. sin (pi * f * t)) (samp_nums (Signal_init SineSignal f sr d))"
  by (simp add: Signal_init_def)

lemma data_Cosine_init:
  "data (Signal_init CosineSignal f sr d) =
     map (\<lambda>t. cos (pi * f * t)) (samp_nums (Signal_init CosineSignal f sr d))"
  by (simp add: Signal_init_def)




text \<open>
  The doubles nearest to 0.1 and to 0.07 as durations: a tenth of a second gives one sample
  at 10 samples per second and 4410 at 44100, since both products round to whole numbers,
  and 0.07 seconds at 100 samples per second gives 8, since the product rounds above 7.
\<close>

lemma float64_rounded:
  "float64 (3602879701896397 / 36028797018963968 * real_of_int 10) = 1"
  "float64 (3602879701896397 / 36028797018963968 * real_of_int 44100) = 4410"
  "float64 (5044031582654956 / 72057594037927936 * real_of_int 100) =
     7881299347898369 / 1125899906842624"
  using float64_normal [of 0 "3602879701896397 / 36028797018963968 * real_of_int 10"]
    float64_normal [of 12 "3602879701896397 / 36028797018963968 * real_of_int 44100"]
    float64_normal [of 2 "5044031582654956 / 72057594037927936 * real_of_int 100"]
  by (simp_all add: round_half_even_def)

lemma Signal_length_rounded:
  "length (data (Signal_init w f 10 (3602879701896397 / 36028797018963968))) = 1"
  "length (data (Signal_init w f 44100 (3602879701896397 / 36028797018963968))) = 4410"
  "length (data (Signal_init w f 100 (5044031582654956 / 72057594037927936))) = 8"
  unfolding length_data_Signal_init float64_rounded by simp_all


text \<open>
  C5. At every index \<open>i\<close> of the sample sequence, the sample index is \<open>i / samp_rate\<close>, the
  sine generator's sample is \<open>sin (pi * freq * (i / samp_rate))\<close> and the cosine
  generator's sample is \<open>cos (pi * freq * (i / samp_rate))\<close>.
\<close>

theorem sine_cosine_samples:
  assumes "i < length (data (Signal_init SineSignal f sr d))"
  shows "samp_nums (Signal_init SineSignal f sr d) ! i = real i / real_of_int sr
       \<and> samp_nums (Signal_init CosineSignal f sr d) ! i = real i / real_of_int sr
       \<and> data (Signal_init SineSignal f sr d) ! i = sin (pi * f * (real i / real_of_int sr))
       \<and> data (Signal_init CosineSignal f sr d) ! i = cos (pi * f * (real i / real_of_int sr))"
proof -
  have i: "i < nat \<lceil>float64 (d * real_of_int sr)\<rceil>"
    using assms by (simp only: length_data_Signal_init)
  have s: "samp_nums (Signal_init SineSignal f sr d) ! i = real i / real_of_int sr"
    using i by (rule nth_samp_nums_Signal_init)
  have c: "samp_nums (Signal_init CosineSignal f sr d) ! i = real i / real_of_int sr"
    using i by (rule nth_samp_nums_Signal_init)
  have ds: "data (Signal_init SineSignal f sr d) ! i = sin (pi * f * (real i / real_of_int sr))"
    using i s by (simp only: data_Sine_init nth_map length_samp_nums_Signal_init)
  have dc: "data (Signal_init CosineSignal f sr d) ! i = cos (pi * f * (real i / real_of_int sr))"
    using i c by (simp only: data_Cosine_init nth_map length_samp_nums_Signal_init)
  show ?thesis using s c ds dc by blast
qed

theorem sine_cosine_samples_witness:
  "1 < length (data (Signal_init SineSignal 440 4 1))
   \<and> samp_nums (Signal_init SineSignal 440 4 1) ! 1 = 1 / 4
   \<and> data (Signal_init SineSignal 440 4 1) ! 1 = sin (pi * 440 * (1 / 4))
   \<and> data (Signal_init CosineSignal 440 4 1) ! 1 = cos (pi * 440 * (1 / 4))"
proof -
  have h: "1 < length (data (Signal_init SineSignal 440 4 1))"
    by (simp add: length_data_Signal_init float64_examples)
  show ?thesis using h sine_cosine_samples [OF h] by simp
qed

section \<open>Properties of write\<close>


lemma fold_max_Max: "fold max xs (x::real) = Max (insert x (set xs))"
  using Max.set_eq_fold [of x xs] by simp

lemma fold_min_Min: "fold min xs (x::real) = Min (insert x (set xs))"
  using Min.set_eq_fold [of x xs] by simp

lemma np_max_eq:
  "np_max arr =
     (if arr = []
      then Inl (ValueError ''zero-size array to reduction operation maximum which has no identity'')
      else Inr (Max (set arr)))"
  by (cases arr) (simp_all add: fold_max_Max)

lemma np_min_eq:
  "np_min arr =
     (if arr = []
      then Inl (ValueError ''zero-size array to reduction operation minimum which has no identity'')
      else Inr (Min (set arr)))"
  by (cases arr) (simp_all add: fold_min_Min)

lemma amplitude_eq:
  "amplitude p UInt8 = Inr (p * 255)" "amplitude p Int16 = Inr (p * 32767)"
  "amplitude p Int32 = Inr (p * 2147483647)" "amplitude p Float32 = Inr p"
  by (simp_all add: amplitude_def)

lemma out_data_signed:
  assumes "dt \<noteq> UInt8" and "amplitude p dt = Inr a"
  shows "out_data dt p arr =
     (if arr = []
      then Inl (ValueError ''zero-size array to reduction operation maximum which has no identity'')
      else Inr (map (\<lambda>x. np_div (x * a) (Max (set arr))) arr))"
  using assms by (simp add: out_data_def np_max_eq)

lemma out_data_unsigned:
  "out_data UInt8 p arr =
     (if arr = []
      then Inl (ValueError ''zero-size array to reduction operation minimum which has no identity'')
      else Inr (map (\<lambda>x. np_div ((x - Min (set arr)) * (p * 255))
                               (Max ((\<lambda>x. x - Min (set arr)) ` set arr))) arr))"
  by (simp add: out_data_def np_max_eq np_min_eq amplitude_eq Let_def comp_def)

lemma out_uint8_example:
  "out_data UInt8 1 [- 2, 0, 2] = Inr [Finite 0, Finite (255 / 2), Finite 255]"
  by (simp add: out_data_def amplitude_eq np_div_def Let_def)

lemma astype_uint8_example:
  "map (astype UInt8) [Finite 0, Finite (255 / 2), Finite 255] =
     [IntSample 0, IntSample 127, IntSample 255]"
  by (simp add: astype_def trunc_def)

lemma np_mul_np_div: "np_div (x * (c * a)) m = np_mul c (np_div (x * a) m)"
proof (cases "m = 0")
  case False
  then show ?thesis by (simp add: np_div_def np_mul_def)
next
  case True
  consider "c = 0" | "x * a = 0" | "0 < c" "0 < x * a" | "0 < c" "x * a < 0"
    | "c < 0" "0 < x * a" | "c < 0" "x * a < 0"
    by linarith
  then show ?thesis
  proof cases
    case 1 then show ?thesis using True by (simp add: np_div_def np_mul_def)
  next
    case 2 then show ?thesis using True by (auto simp add: np_div_def np_mul_def)
  next
    case 3
    then have "0 < c * (x * a)" by simp
    then show ?thesis using True 3 by (simp add: np_div_def np_mul_def mult.left_commute)
  next
    case 4
    then have "c * (x * a) < 0" by (simp add: mult_pos_neg)
    then show ?thesis using True 4 by (simp add: np_div_def np_mul_def mult.left_commute)
  next
    case 5
    then have "c * (x * a) < 0" by (simp add: mult_neg_pos)
    then show ?thesis using True 5 by (simp add: np_div_def np_mul_def mult.left_commute)
  next
    case 6
    then have "0 < c * (x * a)" by (simp add: mult_neg_neg)
    then show ?thesis using True 6 by (simp add: np_div_def np_mul_def mult.left_commute)
  qed
qed

lemma amplitude_scale:
  "amplitude (c * p) dt = (case amplitude p dt of Inl err \<Rightarrow> Inl err | Inr a \<Rightarrow> Inr (c * a))"
  by (cases dt) (simp_all add: amplitude_def)

lemma out_data_scale:
  "out_data dt (c * p) arr =
     (case out_data dt p arr of Inl err \<Rightarrow> Inl err | Inr out \<Rightarrow> Inr (map (np_mul c) out))"
proof (cases "dt = UInt8")
  case True
  have "p * 255 * c = c * (p * 255)" by simp
  then show ?thesis using True
    by (simp add: out_data_unsigned np_mul_np_div [symmetric] comp_def mult.assoc)
next
  case False
  obtain a where a: "amplitude p dt = Inr a" by (cases dt) (simp_all add: amplitude_def)
  then have ca: "amplitude (c * p) dt = Inr (c * a)" by (simp add: amplitude_scale)
  show ?thesis
    by (simp add: out_data_signed [OF False a] out_data_signed [OF False ca] np_mul_np_div comp_def)
qed

text \<open>
  C2. For the signed 16-bit, the signed 32-bit and the 32-bit float output type, the array
  before the cast is \<open>data * (amp_perc * max_magnitude) / max(data)\<close>, where
  \<open>max_magnitude\<close> is 32767, 2147483647 and 1; an empty array raises. The divisor is the
  maximum of the data, not the maximum absolute value: \<open>[-4, 2]\<close> is divided by 2.
\<close>

theorem out_data_direct_scale:
  "out_data Int16 p arr =
     (if arr = []
      then Inl (ValueError ''zero-size array to reduction operation maximum which has no identity'')
      else Inr (map (\<lambda>x. np_div (x * (p * 32767)) (Max (set arr))) arr))
   \<and> out_data Int32 p arr =
     (if arr = []
      then Inl (ValueError ''zero-size array to reduction operation maximum which has no identity'')
      else Inr (map (\<lambda>x. np_div (x * (p * 2147483647)) (Max (set arr))) arr))
   \<and> out_data Float32 p arr =
     (if arr = []
      then Inl (ValueError ''zero-size array to reduction operation maximum which has no identity'')
      else Inr (map (\<lambda>x. np_div (x * (p * 1)) (Max (set arr))) arr))
   \<and> out_data Float32 1 [- 4, 2] = Inr [Finite (- 2), Finite 1]"
proof -
  have a: "out_data Int16 p arr =
     (if arr = []
      then Inl (ValueError ''zero-size array to reduction operation maximum which has no identity'')
      else Inr (map (\<lambda>x. np_div (x * (p * 32767)) (Max (set arr))) arr))"
    by (rule out_data_signed) (simp_all add: amplitude_eq)
  have b: "out_data Int32 p arr =
     (if arr = []
      then Inl (ValueError ''zero-size array to reduction operation maximum which has no identity'')
      else Inr (map (\<lambda>x. np_div (x * (p * 2147483647)) (Max (set arr))) arr))"
    by (rule out_data_signed) (simp_all add: amplitude_eq)
  have c: "out_data Float32 p arr =
     (if arr = []
      then Inl (ValueError ''zero-size array to reduction operation maximum which has no identity'')
      else Inr (map (\<lambda>x. np_div (x * (p * 1)) (Max (set arr))) arr))"
    by (rule out_data_signed) (simp_all add: amplitude_eq)
  have d: "out_data Float32 1 [- 4, 2] = Inr [Finite (- 2), Finite 1]"
    by (simp add: out_data_def amplitude_eq np_div_def)
  show ?thesis using a b c d by blast
qed

text \<open>
  C3. For the unsigned 8-bit output type, the array before the cast is
  \<open>(data - min(data)) * (amp_perc * 255) / max(data - min(data))\<close>; an empty array raises.
  For the input \<open>[-2, 0, 2]\<close> and \<open>amp_perc = 1\<close> the buffer handed to the codec is
  \<open>[0, 127, 255]\<close>: its maximum is 255 and its minimum is 0.
\<close>

theorem out_data_uint8:
  "out_data UInt8 p arr =
     (if arr = []
      then Inl (ValueError ''zero-size array to reduction operation minimum which has no identity'')
      else Inr (map (\<lambda>x. np_div ((x - Min (set arr)) * (p * 255))
                               (Max ((\<lambda>x. x - Min (set arr)) ` set arr))) arr))
   \<and> out_data UInt8 1 [- 2, 0, 2] = Inr [Finite 0, Finite (255 / 2), Finite 255]
   \<and> wav_write e ''out'' (Array [- 2, 0, 2]) (Some 44100) 1 UInt8 False =
       ([WavWrite ''/out.wav'' 44100 [IntSample 0, IntSample 127, IntSample 255]], Inr ())"
proof -
  have w: "wav_write e ''out'' (Array [- 2, 0, 2]) (Some 44100) 1 UInt8 False =
       ([WavWrite ''/out.wav'' 44100 [IntSample 0, IntSample 127, IntSample 255]], Inr ())"
    by (simp add: wav_write_def out_uint8_example astype_def trunc_def)
  show ?thesis using out_data_unsigned [of p arr] out_uint8_example w by blast
qed

text \<open>
  C9. For a fixed array and output type, the amplitude and every sample before the cast
  at \<open>amp_perc = 0.5\<close> are half of those at \<open>amp_perc = 1\<close>; in general, multiplying
  \<open>amp_perc\<close> by \<open>c\<close> multiplies the amplitude and every sample before the cast by \<open>c\<close>.
\<close>

theorem out_data_homogeneous:
  "amplitude (1 / 2) dt =
     (case amplitude 1 dt of Inl err \<Rightarrow> Inl err | Inr a \<Rightarrow> Inr (a / 2))
   \<and> out_data dt (1 / 2) arr =
     (case out_data dt 1 arr of
        Inl err \<Rightarrow> Inl err | Inr out \<Rightarrow> Inr (map (np_mul (1 / 2)) out))
   \<and> amplitude (c * p) dt =
     (case amplitude p dt of Inl err \<Rightarrow> Inl err | Inr a \<Rightarrow> Inr (c * a))
   \<and> out_data dt (c * p) arr =
     (case out_data dt p arr of
        Inl err \<Rightarrow> Inl err | Inr out \<Rightarrow> Inr (map (np_mul c) out))"
proof -
  have a: "amplitude (1 / 2) dt =
     (case amplitude 1 dt of Inl err \<Rightarrow> Inl err | Inr a \<Rightarrow> Inr (a / 2))"
    using amplitude_scale [of "1 / 2" 1 dt] by (simp split: sum.splits)
  have b: "out_data dt (1 / 2) arr =
     (case out_data dt 1 arr of
        Inl err \<Rightarrow> Inl err | Inr out \<Rightarrow> Inr (map (np_mul (1 / 2)) out))"
    using out_data_scale [of dt "1 / 2" 1 arr] by simp
  show ?thesis using a b amplitude_scale [of c p dt] out_data_scale [of dt c p arr] by blast
qed

lemma split_on_not_Nil: "split_on c s \<noteq> []"
  by (induction s) (auto split: list.splits)

lemma split_on_absent: "c \<notin> set s \<Longrightarrow> split_on c s = [s]"
  by (induction s) auto

lemma last_split_on_free: "c \<notin> set (last (split_on c s))"
proof (induction s)
  case Nil
  then show ?case by simp
next
  case (Cons x xs)
  show ?case
  proof (cases "split_on c xs")
    case Nil
    then show ?thesis using split_on_not_Nil by blast
  next
    case (Cons p ps)
    then show ?thesis using Cons.IH by (cases ps) auto
  qed
qed

lemma join_split_on: "join [c] (split_on c s) = s"
proof (induction s)
  case Nil
  then show ?case by simp
next
  case (Cons x xs)
  show ?case
  proof (cases "split_on c xs")
    case Nil
    then show ?thesis using split_on_not_Nil by blast
  next
    case outer: (Cons p ps)
    show ?thesis
    proof (cases "x = c")
      case True
      then show ?thesis using Cons.IH outer by simp
    next
      case False
      then show ?thesis using Cons.IH outer by (cases ps) auto
    qed
  qed
qed

lemma join_butlast_last:
  "2 \<le> length ps \<Longrightarrow> join sep (butlast ps) @ sep @ last ps = join sep ps"
proof (induction sep ps rule: join.induct)
  case (1 sep)
  then show ?case by simp
next
  case (2 sep p)
  then show ?case by simp
next
  case (3 sep p q ps)
  show ?case
  proof (cases ps)
    case Nil
    then show ?thesis by simp
  next
    case (Cons r rs)
    then show ?thesis using 3 by simp
  qed
qed

lemma split_on_present: "c \<in> set s \<Longrightarrow> 2 \<le> length (split_on c s)"
proof (induction s)
  case Nil
  then show ?case by simp
next
  case (Cons x xs)
  show ?case
  proof (cases "x = c")
    case True
    then show ?thesis using split_on_not_Nil [of c xs] by (cases "split_on c xs") auto
  next
    case False
    then have "c \<in> set xs" using Cons.prems by simp
    then have "2 \<le> length (split_on c xs)" by (rule Cons.IH)
    then show ?thesis using False by (cases "split_on c xs") auto
  qed
qed

lemma folder_raw_filename:
  "c \<in> set s \<Longrightarrow> join [c] (butlast (split_on c s)) @ [c] @ last (split_on c s) = s"
  using join_butlast_last [OF split_on_present, of c s "[c]"] join_split_on [of c s] by simp

lemma folder_raw_absent:
  "c \<notin> set s \<Longrightarrow> join [c] (butlast (split_on c s)) = [] \<and> last (split_on c s) = s"
  by (simp add: split_on_absent)

lemma wav_write_success:
  assumes "wav_write e filename signal rate_arg amp_perc dt auto_timestamp = (effs, Inr ())"
  shows "\<exists>rate out.
     (case signal of SignalObj s \<Rightarrow> Some (samp_rate s) | Array a \<Rightarrow> rate_arg) = Some rate
   \<and> out_data dt amp_perc (case signal of SignalObj s \<Rightarrow> data s | Array a \<Rightarrow> a) = Inr out
   \<and> effs =
       (if join ''/'' (butlast (split_on CHR ''/'' filename)) \<noteq> ''''
           \<and> \<not> path_exists e (join ''/'' (butlast (split_on CHR ''/'' filename)))
        then [MakeDirs (join ''/'' (butlast (split_on CHR ''/'' filename)))] else [])
       @ [WavWrite (join ''/'' (butlast (split_on CHR ''/'' filename)) @ ''/''
                    @ (if auto_timestamp then strftime (now e) @ ''-'' else '''')
                    @ last (split_on CHR ''/'' filename) @ ''.wav'')
            rate (map (astype dt) out)]"
  using assms
  by (cases signal) (auto simp: wav_write_def Let_def split: option.splits sum.splits if_splits)


text \<open>
  C6. When \<open>write\<close> succeeds, its last file-system call writes the file
  \<open>folder/prefix raw_filename.wav\<close>, where \<open>folder\<close> and \<open>raw_filename\<close> are the parts of
  the given filename before and after its last \<open>/\<close> (an empty folder and the whole filename
  when it has none), and \<open>prefix\<close> is the local time as \<open>YYMMDD-HHMMSS\<close> followed by \<open>-\<close>
  when \<open>auto_timestamp\<close> is true and empty when it is false. The only call before it, if
  any, creates the folder.
\<close>

theorem wav_write_path:
  assumes "wav_write e filename signal rate_arg amp_perc dt auto_timestamp = (effs, Inr ())"
  shows "\<exists>folder raw_filename made rate buffer.
     effs = made @
       [WavWrite (folder @ ''/''
                  @ (if auto_timestamp
                     then two_digits (year (now e) mod 100) @ two_digits (month (now e))
                          @ two_digits (day (now e)) @ ''-'' @ two_digits (hour (now e))
                          @ two_digits (minute (now e)) @ two_digits (second (now e)) @ ''-''
                     else '''')
                  @ raw_filename @ ''.wav'') rate buffer]
   \<and> (made = [] \<or> made = [MakeDirs folder])
   \<and> CHR ''/'' \<notin> set raw_filename
   \<and> (if CHR ''/'' \<in> set filename then filename = folder @ ''/'' @ raw_filename
       else folder = '''' \<and> raw_filename = filename)"
proof -
  define folder where "folder = join ''/'' (butlast (split_on CHR ''/'' filename))"
  define raw_filename where "raw_filename = last (split_on CHR ''/'' filename)"
  define made where
    "made = (if folder \<noteq> '''' \<and> \<not> path_exists e folder then [MakeDirs folder] else [])"
  obtain rate out where
    effs: "effs = made @
       [WavWrite (folder @ ''/'' @ (if auto_timestamp then strftime (now e) @ ''-'' else '''')
                  @ raw_filename @ ''.wav'') rate (map (astype dt) out)]"
    using wav_write_success [OF assms] unfolding folder_def raw_filename_def made_def by blast
  have m: "made = [] \<or> made = [MakeDirs folder]" by (simp add: made_def)
  have r: "CHR ''/'' \<notin> set raw_filename"
    unfolding raw_filename_def by (rule last_split_on_free)
  have s: "if CHR ''/'' \<in> set filename then filename = folder @ ''/'' @ raw_filename
           else folder = '''' \<and> raw_filename = filename"
    using folder_raw_filename [of "CHR ''/''" filename] folder_raw_absent [of "CHR ''/''" filename]
    unfolding folder_def raw_filename_def by auto
  have t: "strftime (now e) @ ''-'' =
     two_digits (year (now e) mod 100) @ two_digits (month (now e))
     @ two_digits (day (now e)) @ ''-'' @ two_digits (hour (now e))
     @ two_digits (minute (now e)) @ two_digits (second (now e)) @ ''-''"
    by (simp add: strftime_def)
  have "effs = made @
       [WavWrite (folder @ ''/''
                  @ (if auto_timestamp
                     then two_digits (year (now e) mod 100) @ two_digits (month (now e))
                          @ two_digits (day (now e)) @ ''-'' @ two_digits (hour (now e))
                          @ two_digits (minute (now e)) @ two_digits (second (now e)) @ ''-''
                     else '''')
                  @ raw_filename @ ''.wav'') rate (map (astype dt) out)]"
    using effs t by (cases auto_timestamp) simp_all
  then show ?thesis using m r s by blast
qed

lemma wav_write_example:
  "wav_write \<lparr>path_exists = (\<lambda>p. False),
              now = \<lparr>year = 2024, month = 3, day = 9, hour = 14, minute = 5, second = 7\<rparr>\<rparr>
     ''out/tone'' (Array [1, 2]) (Some 44100) 1 Int16 True =
     ([MakeDirs ''out'',
       WavWrite ''out/240309-140507-tone.wav'' 44100 [IntSample 16383, IntSample 32767]],
      Inr ())"
  by (simp add: wav_write_def out_data_def amplitude_def np_div_def astype_def trunc_def
      strftime_def two_digits_def)

theorem wav_write_path_witness:
  "wav_write \<lparr>path_exists = (\<lambda>p. False),
              now = \<lparr>year = 2024, month = 3, day = 9, hour = 14, minute = 5, second = 7\<rparr>\<rparr>
     ''out/tone'' (Array [1, 2]) (Some 44100) 1 Int16 True =
     ([MakeDirs ''out'',
       WavWrite ''out/240309-140507-tone.wav'' 44100 [IntSample 16383, IntSample 32767]],
      Inr ())
   \<and> (\<exists>folder raw_filename made rate buffer.
        [MakeDirs ''out'',
         WavWrite ''out/240309-140507-tone.wav'' 44100 [IntSample 16383, IntSample 32767]] =
        made @ [WavWrite (folder @ ''/'' @ ''240309-140507-'' @ raw_filename @ ''.wav'') rate buffer]
      \<and> (made = [] \<or> made = [MakeDirs folder])
      \<and> CHR ''/'' \<notin> set raw_filename
      \<and> ''out/tone'' = folder @ ''/'' @ raw_filename)"
  using wav_write_path [OF wav_write_example] wav_write_example
  by (simp add: two_digits_def)

text \<open>
  C7. Given an instance of \<open>Signal\<close>, \<open>write\<close> behaves as on the instance's \<open>data\<close> array with
  the instance's \<open>samp_rate\<close>, whatever sampling rate is passed beside it: either the
  normalisation of \<open>data\<close> raises and nothing is written, or the file is written at the rate
  \<open>samp_rate\<close> of the instance with the buffer computed from its \<open>data\<close>.
\<close>

theorem wav_write_Signal:
  "wav_write e filename (SignalObj s) rate_arg amp_perc dt auto_timestamp =
     wav_write e filename (Array (data s)) (Some (samp_rate s)) amp_perc dt auto_timestamp
   \<and> (case out_data dt amp_perc (data s) of
        Inl err \<Rightarrow>
          wav_write e filename (SignalObj s) rate_arg amp_perc dt auto_timestamp = ([], Inl err)
      | Inr out \<Rightarrow>
          (\<exists>made path.
             wav_write e filename (SignalObj s) rate_arg amp_perc dt auto_timestamp =
               (made @ [WavWrite path (samp_rate s) (map (astype dt) out)], Inr ())))"
  by (simp add: wav_write_def Let_def split: sum.splits)

lemma wav_write_Signal_example:
  "wav_write e ''square'' (SignalObj (Signal_init SquareSignal 1 2 1)) (Some 8000) 1 Float32 False =
     ([WavWrite ''/square.wav'' 2 [FloatSample (Finite 1), FloatSample (Finite 1)]], Inr ())"
  by (simp add: wav_write_def Signal_init_def np_arange_def float64_examples square_def tmod_def
      out_data_def amplitude_def np_div_def astype_def upt_conv_Cons)

text \<open>
  C10. When the filename contains no \<open>/\<close> and \<open>write\<close> succeeds, its only file-system call
  writes the file \<open>/prefix filename.wav\<close>: no directory is created, and the path is absolute,
  at the root of the file system.
\<close>

theorem wav_write_no_folder:
  assumes "CHR ''/'' \<notin> set filename"
    and "wav_write e filename signal rate_arg amp_perc dt auto_timestamp = (effs, Inr ())"
  shows "\<exists>rate buffer.
     effs = [WavWrite (''/'' @ (if auto_timestamp then strftime (now e) @ ''-'' else '''')
                       @ filename @ ''.wav'') rate buffer]"
  using wav_write_success [OF assms(2)] folder_raw_absent [OF assms(1)] by auto

lemma wav_write_no_folder_example:
  "wav_write \<lparr>path_exists = (\<lambda>p. False),
              now = \<lparr>year = 2024, month = 3, day = 9, hour = 14, minute = 5, second = 7\<rparr>\<rparr>
     ''tone'' (Array [1, 2]) (Some 44100) 1 Float32 True =
     ([WavWrite ''/240309-140507-tone.wav'' 44100 [FloatSample (Finite (1 / 2)), FloatSample (Finite 1)]],
      Inr ())"
  by (simp add: wav_write_def out_data_def amplitude_def np_div_def astype_def
      strftime_def two_digits_def)

theorem wav_write_no_folder_witness:
  "CHR ''/'' \<notin> set ''tone''
   \<and> wav_write \<lparr>path_exists = (\<lambda>p. False),
              now = \<lparr>year = 2024, month = 3, day = 9, hour = 14, minute = 5, second = 7\<rparr>\<rparr>
     ''tone'' (Array [1, 2]) (Some 44100) 1 Float32 True =
     ([WavWrite ''/240309-140507-tone.wav'' 44100
         [FloatSample (Finite (1 / 2)), FloatSample (Finite 1)]],
      Inr ())
   \<and> (\<exists>rate buffer.
        [WavWrite ''/240309-140507-tone.wav'' 44100
           [FloatSample (Finite (1 / 2)), FloatSample (Finite 1)]] =
        [WavWrite (''/'' @ ''240309-140507-'' @ ''tone'' @ ''.wav'') rate buffer])"
proof -
  have h: "CHR ''/'' \<notin> set ''tone''" by simp
  show ?thesis
    using h wav_write_no_folder [OF h wav_write_no_folder_example] wav_write_no_folder_example
    by (simp add: strftime_def two_digits_def)
qed

text \<open>
  C4. A call of \<open>write\<close> with a raw array and no sampling rate raises the error
  "Sampling rate is undefined." and makes no file-system call: no directory is created and
  no file is written, whatever the other arguments and the surroundings are.
\<close>

theorem wav_write_missing_samp_rate:
  "wav_write e filename (Array arr) None amp_perc dt auto_timestamp =
     ([], Inl (ValueError ''Sampling rate is undefined.''))"
  by (simp add: wav_write_def)

end
